theory Spec2Isabelle
  imports Main
begin

section \<open>The test-server harness of charm (package testserver)\<close>

text \<open>
  A shallow embedding of \<^verbatim>\<open>testserver/testserver.go\<close>: the readiness probe
  \<^verbatim>\<open>FetchURL\<close>, the port allocator \<^verbatim>\<open>randomPort\<close> and the orchestrator
  \<^verbatim>\<open>SetupTestServerWithAgent\<close> with the teardown closures it registers.

  The harness is effectful throughout. Every call it makes into a collaborator (the Go
  standard library, the server, the client, the key generator, the fake agent) is an
  \<^emph>\<open>event\<close> appended to a trace, in program order, and what the collaborator answers is
  read from a \<^emph>\<open>world\<close>: a record of the answers, indexed by the number of the call
  where the answer can change from one call to the next. A Go \<^verbatim>\<open>error\<close> is its
  message; a pair \<^verbatim>\<open>(value, error)\<close> of which exactly one is nil is a sum.
\<close>

subsection \<open>Data\<close>

text \<open>\<^verbatim>\<open>*http.Response\<close>, as far as the source reads it (\<^verbatim>\<open>StatusCode\<close>).\<close>

record http_response =
  StatusCode :: int

text \<open>
  The server's configuration. Its declaration is in package \<^verbatim>\<open>server\<close>; the fields
  are the ones the harness reads or assigns, and the key material \<^verbatim>\<open>WithKeys\<close> embeds.
\<close>

record server_config =
  srv_Host :: string
  srv_SSHPort :: int
  srv_HTTPPort :: int
  srv_HealthPort :: int
  srv_DataDir :: string
  srv_PublicKey :: string
  srv_PrivateKey :: string

text \<open>
  The client's configuration. Its declaration is in package \<^verbatim>\<open>client\<close>; the fields
  are the six the harness assigns.
\<close>

record client_config =
  Host :: string
  SSHPort :: int
  HTTPPort :: int
  DataDir :: string
  UseSSHAgent :: bool
  SSHAgentAddr :: string

text \<open>
  A client handle keeps the configuration it was built from; a signer is an opaque
  identity; the fake agent is built from the signers it serves.
\<close>

datatype client = Client (client_cfg: client_config)

datatype signer = Signer string

datatype agent = Agent (agent_keys: "signer list")

record keypair =
  PublicKey :: string
  PrivateKeyPEM :: string

text \<open>\<^verbatim>\<open>type Clients struct { Full, NoAgent *client.Client }\<close>; a nil pointer is \<open>None\<close>.\<close>

record Clients =
  Full :: "client option"
  NoAgent :: "client option"

subsection \<open>Events, teardown closures, state\<close>

datatype event =
    EvListen
  | EvKeygen string
  | EvNewServer server_config
  | EvSetenv string string
  | EvUnsetenv string
  | EvServerStart
  | EvGet string
  | EvSleep nat \<comment> \<open>milliseconds\<close>
  | EvBodyClose
  | EvLog string
  | EvError string
  | EvAgentNew "signer list"
  | EvAgentStart
  | EvAgentReady bool
  | EvAgentSocket
  | EvAgentClose
  | EvServerClose
  | EvConfigFromEnv
  | EvNewClient client_config

text \<open>
  The two function literals handed to \<^verbatim>\<open>tb.Cleanup\<close>, with the variables they
  capture: the first (lines 82 to 84) captures \<^verbatim>\<open>agt\<close>, the second (lines 93 to 106)
  captures the server and \<^verbatim>\<open>agt\<close>, which is not assigned again after line 77.
\<close>

datatype cleanup =
    AgentCleanup agent
  | ServerCleanup "agent option"

type_synonym environ = "string \<rightharpoonup> string"

record state =
  env :: environ
  trace :: "event list"
  cleanups :: "cleanup list" \<comment> \<open>most recently registered first\<close>
  gets :: nat \<comment> \<open>calls of \<^verbatim>\<open>http.Get\<close> so far\<close>
  polls :: nat \<comment> \<open>calls of \<^verbatim>\<open>agt.Ready\<close> so far\<close>
  listens :: nat \<comment> \<open>calls of \<^verbatim>\<open>net.Listen\<close> so far\<close>
  sockets :: nat \<comment> \<open>calls of \<^verbatim>\<open>agt.Socket\<close> so far\<close>
  reads :: nat \<comment> \<open>calls of \<^verbatim>\<open>client.ConfigFromEnv\<close> so far\<close>
  builds :: nat \<comment> \<open>calls of \<^verbatim>\<open>client.NewClient\<close> so far\<close>

record world =
  tb_TempDir :: string
  filepath_Join :: "string \<Rightarrow> string \<Rightarrow> string"
  server_DefaultConfig :: server_config
  net_Listen :: "nat \<Rightarrow> string + int"
    \<comment> \<open>the n-th listener: an error, or the port its address ends in\<close>
  keygen_NewWithWrite :: "string \<Rightarrow> string + keypair"
  server_WithKeys :: "server_config \<Rightarrow> string \<Rightarrow> string \<Rightarrow> server_config"
  server_NewServer :: "server_config \<Rightarrow> string option"
  server_Close :: "string option"
  http_Get :: "string \<Rightarrow> nat \<Rightarrow> string + http_response"
    \<comment> \<open>the answer to the n-th GET of the process, sent to the given URL\<close>
  agent_Ready :: "nat \<Rightarrow> bool"
  agent_Socket :: "nat \<Rightarrow> string"
  client_ConfigFromEnv :: "nat \<Rightarrow> environ \<Rightarrow> string + client_config"
  client_NewClient :: "nat \<Rightarrow> client_config \<Rightarrow> string option"

definition emit :: "event list \<Rightarrow> state \<Rightarrow> state" where
  "emit evs s = s\<lparr>trace := trace s @ evs\<rparr>"

subsection \<open>Formatting with \<^verbatim>\<open>%d\<close>\<close>

function digits :: "nat \<Rightarrow> string" where
  "digits n =
     (if n < 10 then [''0123456789'' ! n]
      else digits (n div 10) @ [''0123456789'' ! (n mod 10)])"
  by pat_completeness auto
termination
  by (relation "measure id") auto

declare digits.simps [simp del]

definition itoa :: "int \<Rightarrow> string" where
  "itoa i = (if i < 0 then CHR ''-'' # digits (nat (- i)) else digits (nat i))"

subsection \<open>The readiness probe\<close>

text \<open>
  \<^verbatim>\<open>
  func FetchURL(url string, retries int) (*http.Response, error) {
      resp, err := http.Get(url)
      if err != nil {
          if retries > 0 {
              time.Sleep(time.Second)
              return FetchURL(url, retries-1)
          }
          return nil, err
      }
      if resp.StatusCode != 200 {
          return resp, fmt.Errorf("bad http status code: %d", resp.StatusCode)
      }
      return resp, nil
  }
  \<close>
  The result is the pair the Go function returns, each component \<open>None\<close> for nil. The
  budget is a Go \<^verbatim>\<open>int\<close>; it is only compared with 0 and decremented while positive,
  so it never wraps and an unbounded integer models it.
\<close>

definition http_get :: "world \<Rightarrow> string \<Rightarrow> state \<Rightarrow> (string + http_response) \<times> state" where
  "http_get w url s =
     (http_Get w url (gets s), (emit [EvGet url] s)\<lparr>gets := Suc (gets s)\<rparr>)"

function FetchURL ::
  "world \<Rightarrow> string \<Rightarrow> int \<Rightarrow> state \<Rightarrow> (http_response option \<times> string option) \<times> state"
where
  "FetchURL w url retries s =
     (case http_get w url s of
        (Inl err, s1) \<Rightarrow>
          if retries > 0 then FetchURL w url (retries - 1) (emit [EvSleep 1000] s1)
          else ((None, Some err), s1)
      | (Inr resp, s1) \<Rightarrow>
          if StatusCode resp \<noteq> 200
          then ((Some resp, Some (''bad http status code: '' @ itoa (StatusCode resp))), s1)
          else ((Some resp, None), s1))"
  by pat_completeness auto
termination
  by (relation "measure (\<lambda>(w, url, retries, s). nat retries)") auto

declare FetchURL.simps [simp del]

subsection \<open>The process environment\<close>

text \<open>
  \<^verbatim>\<open>os.Setenv\<close> and \<^verbatim>\<open>os.Unsetenv\<close>. The harness discards their error results
  (\<^verbatim>\<open>_ = os.Setenv(...)\<close>), so a refused write leaves the environment as it was and the
  harness goes on: the standard library refuses an empty key, a key holding \<^verbatim>\<open>=\<close> or a
  NUL byte, and a value holding a NUL byte. The call itself is an event either way.
\<close>

definition os_Setenv :: "string \<Rightarrow> string \<Rightarrow> state \<Rightarrow> state" where
  "os_Setenv key val s =
     (let s1 = emit [EvSetenv key val] s in
      if key = [] \<or> CHR ''='' \<in> set key \<or> CHR 0x00 \<in> set key \<or> CHR 0x00 \<in> set val
      then s1
      else s1\<lparr>env := (env s1)(key \<mapsto> val)\<rparr>)"

definition os_Unsetenv :: "string \<Rightarrow> state \<Rightarrow> state" where
  "os_Unsetenv key s = (emit [EvUnsetenv key] s)\<lparr>env := (env s)(key := None)\<rparr>"

subsection \<open>The port allocator\<close>

text \<open>
  \<^verbatim>\<open>randomPort\<close> (lines 175 to 186): listen on port 0, abort the test when that fails,
  close the listener and return the port its address ends in. \<^verbatim>\<open>tb.Fatalf\<close> ends the
  calling function at once: a fatal message is \<open>Inl\<close>, and every caller passes it on.
\<close>

definition randomPort :: "world \<Rightarrow> state \<Rightarrow> (string + int) \<times> state" where
  "randomPort w s =
     (let s1 = (emit [EvListen] s)\<lparr>listens := Suc (listens s)\<rparr> in
      case net_Listen w (listens s) of
        Inl err \<Rightarrow> (Inl (''could not get a random port: '' @ err), s1)
      | Inr p \<Rightarrow> (Inr p, s1))"

subsection \<open>The orchestrator, phase by phase\<close>

text \<open>Lines 43 to 58: the server configuration, the key pair, the server instance.\<close>

definition serverConfig :: "world \<Rightarrow> string \<Rightarrow> state \<Rightarrow> (string + server_config) \<times> state" where
  "serverConfig w td s =
     (let sp = filepath_Join w td ''.ssh'';
          cfg = (server_DefaultConfig w)\<lparr>srv_DataDir := filepath_Join w td ''.data''\<rparr>
      in case randomPort w s of
           (Inl msg, s1) \<Rightarrow> (Inl msg, s1)
         | (Inr p1, s1) \<Rightarrow>
        (case randomPort w s1 of
           (Inl msg, s2) \<Rightarrow> (Inl msg, s2)
         | (Inr p2, s2) \<Rightarrow>
        (case randomPort w s2 of
           (Inl msg, s3) \<Rightarrow> (Inl msg, s3)
         | (Inr p3, s3) \<Rightarrow>
        (let cfg = cfg\<lparr>srv_SSHPort := p1, srv_HTTPPort := p2, srv_HealthPort := p3\<rparr>;
             path = filepath_Join w sp ''charm_server'';
             s4 = emit [EvKeygen path] s3
         in case keygen_NewWithWrite w path of
              Inl err \<Rightarrow> (Inl (''keygen error: '' @ err), s4)
            | Inr kp \<Rightarrow>
           (let cfg = server_WithKeys w cfg (PublicKey kp) (PrivateKeyPEM kp);
                s5 = emit [EvNewServer cfg] s4
            in case server_NewServer w cfg of
                 Some err \<Rightarrow> (Inl (''new server error: '' @ err), s5)
               | None \<Rightarrow> (Inr cfg, s5))))))"

text \<open>Lines 60 to 63: the variables written once the server exists.\<close>

definition publishEnv :: "server_config \<Rightarrow> string \<Rightarrow> state \<Rightarrow> state" where
  "publishEnv cfg clientData s =
     os_Setenv ''CHARM_DATA_DIR'' clientData
       (os_Setenv ''CHARM_HTTP_PORT'' (itoa (srv_HTTPPort cfg))
         (os_Setenv ''CHARM_SSH_PORT'' (itoa (srv_SSHPort cfg))
           (os_Setenv ''CHARM_HOST'' (srv_Host cfg) s)))"

text \<open>
  Lines 86 to 88: \<^verbatim>\<open>for !agt.Ready() { time.Sleep(time.Millisecond * 100) }\<close>. The loop
  has no bound; where the agent never reports ready it does not return (\<open>None\<close>).
\<close>

partial_function (option) waitReady :: "world \<Rightarrow> state \<Rightarrow> state option" where
  "waitReady w s =
     (let s1 = (emit [EvAgentReady (agent_Ready w (polls s))] s)\<lparr>polls := Suc (polls s)\<rparr> in
      if agent_Ready w (polls s) then Some s1
      else waitReady w (emit [EvSleep 100] s1))"

declare waitReady.simps [code]

text \<open>Lines 75 to 91: the fake agent, its teardown closure, the wait for its readiness.\<close>

definition startAgent :: "world \<Rightarrow> signer list \<Rightarrow> state \<Rightarrow> (agent option \<times> state) option" where
  "startAgent w signers s =
     (if length signers > 0 then
        (let agt = Agent signers;
             s1 = emit [EvAgentNew signers, EvAgentStart] s;
             s2 = s1\<lparr>cleanups := AgentCleanup agt # cleanups s1\<rparr>
         in case waitReady w s2 of
              None \<Rightarrow> None
            | Some s3 \<Rightarrow>
                Some (Some agt,
                  emit [EvLog (''fake ssh agent ready with '' @ itoa (int (length signers))
                          @ '' keys'')] s3))
      else Some (None, s))"

text \<open>
  The three calls of lines 108 to 147 into the agent and the client package, each with
  its event and its counter.
\<close>

definition agt_Socket :: "world \<Rightarrow> state \<Rightarrow> string \<times> state" where
  "agt_Socket w s =
     (agent_Socket w (sockets s), (emit [EvAgentSocket] s)\<lparr>sockets := Suc (sockets s)\<rparr>)"

definition ConfigFromEnv :: "world \<Rightarrow> state \<Rightarrow> (string + client_config) \<times> state" where
  "ConfigFromEnv w s =
     (client_ConfigFromEnv w (reads s) (env s),
      (emit [EvConfigFromEnv] s)\<lparr>reads := Suc (reads s)\<rparr>)"

definition NewClient :: "world \<Rightarrow> client_config \<Rightarrow> state \<Rightarrow> (string + client) \<times> state" where
  "NewClient w ccfg s =
     (case client_NewClient w (builds s) ccfg of
        Some err \<Rightarrow> Inl err
      | None \<Rightarrow> Inr (Client ccfg),
      (emit [EvNewClient ccfg] s)\<lparr>builds := Suc (builds s)\<rparr>)"

text \<open>Lines 108 to 147: the client without the agent, then the client with it.\<close>

definition newClients ::
  "world \<Rightarrow> server_config \<Rightarrow> string \<Rightarrow> agent option \<Rightarrow> state \<Rightarrow> (string + Clients) \<times> state"
where
  "newClients w cfg clientData agt s =
     (let clients = \<lparr>Full = None, NoAgent = None\<rparr> in
      case ConfigFromEnv w s of
        (Inl err, s1) \<Rightarrow> (Inl (''client config from env error: '' @ err), s1)
      | (Inr ccfg0, s1) \<Rightarrow>
     (let ccfg = ccfg0\<lparr>Host := srv_Host cfg, SSHPort := srv_SSHPort cfg,
                        HTTPPort := srv_HTTPPort cfg, DataDir := clientData\<rparr> in
      case NewClient w ccfg s1 of
        (Inl err, s2) \<Rightarrow> (Inl (''new client error: '' @ err), s2)
      | (Inr cl, s2) \<Rightarrow>
     (let clients = clients\<lparr>NoAgent := Some cl\<rparr> in
      case agt of
        None \<Rightarrow> (Inr clients, s2)
      | Some a \<Rightarrow>
     (case agt_Socket w s2 of (addr, s3) \<Rightarrow>
      let s4 = os_Setenv ''CHARM_SSH_AGENT_ADDR'' addr s3;
          s5 = os_Setenv ''CHARM_USE_SSH_AGENT'' ''true'' s4 in
      case ConfigFromEnv w s5 of
        (Inl err, s6) \<Rightarrow> (Inl (''client config from env error: '' @ err), s6)
      | (Inr fcfg0, s6) \<Rightarrow>
     (case agt_Socket w s6 of (addr', s7) \<Rightarrow>
      let fcfg = fcfg0\<lparr>Host := srv_Host cfg, SSHPort := srv_SSHPort cfg,
                        HTTPPort := srv_HTTPPort cfg, DataDir := clientData,
                        UseSSHAgent := True, SSHAgentAddr := addr'\<rparr> in
      case NewClient w fcfg s7 of
        (Inl err, s8) \<Rightarrow> (Inl (''new client error: '' @ err), s8)
      | (Inr cl', s8) \<Rightarrow> (Inr (clients\<lparr>Full := Some cl'\<rparr>), s8))))))"

subsection \<open>The orchestrator\<close>

text \<open>
  \<^verbatim>\<open>SetupTestServerWithAgent\<close> (lines 36 to 148). The result is \<open>None\<close> where the
  call does not return (the agent is never ready), \<open>Inl\<close> of the message where the test
  is aborted by \<^verbatim>\<open>tb.Fatalf\<close>, and \<open>Inr\<close> of the \<^verbatim>\<open>Clients\<close> value otherwise. The
  server and the agent are started on goroutines of their own: the launch is the event,
  what they do afterwards shows only in the answers of the world. The response body's
  deferred \<^verbatim>\<open>Close\<close> (line 71) runs when the function is left, by return or by abort.
\<close>

definition SetupTestServerWithAgent ::
  "world \<Rightarrow> signer list \<Rightarrow> state \<Rightarrow> ((string + Clients) \<times> state) option"
where
  "SetupTestServerWithAgent w signers s =
     (let td = tb_TempDir w;
          clientData = filepath_Join w td ''.client-data''
      in case serverConfig w td s of
           (Inl msg, s1) \<Rightarrow> Some (Inl msg, s1)
         | (Inr cfg, s1) \<Rightarrow>
        (let s2 = emit [EvServerStart] (publishEnv cfg clientData s1) in
         case FetchURL w (''http://localhost:'' @ itoa (srv_HealthPort cfg)) 3 s2 of
           ((resp, Some err), s3) \<Rightarrow>
             Some (Inl (''server likely failed to start: '' @ err), s3)
         | ((resp, None), s3) \<Rightarrow>
          (case startAgent w signers (emit [EvLog ''server ready!''] s3) of
             None \<Rightarrow> None
           | Some (agt, s4) \<Rightarrow>
              (let s5 = s4\<lparr>cleanups := ServerCleanup agt # cleanups s4\<rparr> in
               case newClients w cfg clientData agt s5 of
                 (r, s6) \<Rightarrow> Some (r, emit [EvBodyClose] s6)))))"

text \<open>\<^verbatim>\<open>SetupTestServer\<close> (lines 155 to 157): the same with no signer, keeping \<^verbatim>\<open>NoAgent\<close>.\<close>

definition SetupTestServer :: "world \<Rightarrow> state \<Rightarrow> ((string + client option) \<times> state) option" where
  "SetupTestServer w s =
     (case SetupTestServerWithAgent w [] s of
        None \<Rightarrow> None
      | Some (Inl msg, s') \<Rightarrow> Some (Inl msg, s')
      | Some (Inr clients, s') \<Rightarrow> Some (Inr (NoAgent clients), s'))"

subsection \<open>Teardown\<close>

text \<open>
  The bodies of the two closures. The first is \<^verbatim>\<open>_ = agt.Close()\<close>. The second closes
  the server, reports a close error with \<^verbatim>\<open>tb.Error\<close> (which marks the test failed and
  goes on), unsets the four variables of lines 98 to 101 and, under \<^verbatim>\<open>if agt != nil\<close>,
  the two of lines 103 and 104.
\<close>

fun runCleanup :: "world \<Rightarrow> cleanup \<Rightarrow> state \<Rightarrow> state" where
  "runCleanup w (AgentCleanup agt) s = emit [EvAgentClose] s"
| "runCleanup w (ServerCleanup agt) s =
     (let s1 = emit [EvServerClose] s;
          s2 = (case server_Close w of
                  Some err \<Rightarrow> emit [EvError (''failed to close server: '' @ err)] s1
                | None \<Rightarrow> s1);
          s3 = os_Unsetenv ''CHARM_DATA_DIR''
                 (os_Unsetenv ''CHARM_HTTP_PORT''
                   (os_Unsetenv ''CHARM_SSH_PORT''
                     (os_Unsetenv ''CHARM_HOST'' s2)))
      in if agt \<noteq> None
         then os_Unsetenv ''CHARM_SSH_AGENT_ADDR'' (os_Unsetenv ''CHARM_USE_SSH_AGENT'' s3)
         else s3)"

text \<open>
  The test framework's side of \<^verbatim>\<open>tb.Cleanup\<close>, as package \<^verbatim>\<open>testing\<close> documents it:
  when the test completes, the registered functions are called last added, first called.
  \<open>cleanups\<close> holds the most recent registration first, so teardown runs it front to back.
\<close>

fun runCleanups :: "world \<Rightarrow> cleanup list \<Rightarrow> state \<Rightarrow> state" where
  "runCleanups w [] s = s"
| "runCleanups w (c # cs) s = runCleanups w cs (runCleanup w c s)"

definition tb_Teardown :: "world \<Rightarrow> state \<Rightarrow> state" where
  "tb_Teardown w s = runCleanups w (cleanups s) (s\<lparr>cleanups := []\<rparr>)"

subsection \<open>Concrete collaborators\<close>

text \<open>
  A world in which everything works: three free ports, a server that refuses the first
  two probes and then answers 200, an agent that is ready at the second poll, and a
  client package that reads its configuration from the environment.
\<close>

definition example_config :: "environ \<Rightarrow> client_config" where
  "example_config e =
     \<lparr>Host = (case e ''CHARM_HOST'' of Some h \<Rightarrow> h | None \<Rightarrow> ''cloud.charm.sh''),
      SSHPort = 35353, HTTPPort = 35354,
      DataDir = (case e ''CHARM_DATA_DIR'' of Some d \<Rightarrow> d | None \<Rightarrow> []),
      UseSSHAgent = (e ''CHARM_USE_SSH_AGENT'' = Some ''true''),
      SSHAgentAddr = (case e ''CHARM_SSH_AGENT_ADDR'' of Some a \<Rightarrow> a | None \<Rightarrow> [])\<rparr>"

definition example_world :: world where
  "example_world =
     \<lparr>tb_TempDir = ''/tmp/t'',
      filepath_Join = (\<lambda>a b. a @ ''/'' @ b),
      server_DefaultConfig =
        \<lparr>srv_Host = ''localhost'', srv_SSHPort = 35353, srv_HTTPPort = 35354,
         srv_HealthPort = 35356, srv_DataDir = ''data'', srv_PublicKey = [],
         srv_PrivateKey = []\<rparr>,
      net_Listen = (\<lambda>n. Inr (7001 + int n)),
      keygen_NewWithWrite = (\<lambda>path. Inr \<lparr>PublicKey = ''pub'', PrivateKeyPEM = ''pem''\<rparr>),
      server_WithKeys = (\<lambda>c pub pem. c\<lparr>srv_PublicKey := pub, srv_PrivateKey := pem\<rparr>),
      server_NewServer = (\<lambda>c. None),
      server_Close = None,
      http_Get = (\<lambda>url n. if n < 2 then Inl ''connection refused''
                           else Inr \<lparr>StatusCode = 200\<rparr>),
      agent_Ready = (\<lambda>n. 1 \<le> n),
      agent_Socket = (\<lambda>n. ''/tmp/agent.sock''),
      client_ConfigFromEnv = (\<lambda>n e. Inr (example_config e)),
      client_NewClient = (\<lambda>n c. None)\<rparr>"

text \<open>The same with an endpoint that always answers 503, and with one that never answers.\<close>

definition unhealthy_world :: world where
  "unhealthy_world = example_world\<lparr>http_Get := (\<lambda>url n. Inr \<lparr>StatusCode = 503\<rparr>)\<rparr>"

definition silent_world :: world where
  "silent_world = example_world\<lparr>http_Get := (\<lambda>url n. Inl ''connection refused'')\<rparr>"

text \<open>
  A fresh process, and one whose environment already names an agent that some other
  part of the program configured.
\<close>

definition example_state :: state where
  "example_state =
     \<lparr>env = Map.empty, trace = [], cleanups = [], gets = 0, polls = 0, listens = 0,
      sockets = 0, reads = 0, builds = 0\<rparr>"

definition ambient_state :: state where
  "ambient_state =
     example_state\<lparr>env := [''CHARM_USE_SSH_AGENT'' \<mapsto> ''true'',
                           ''CHARM_SSH_AGENT_ADDR'' \<mapsto> ''/run/other.sock'']\<rparr>"

text \<open>The events a run adds to the trace, and the writes to the environment among them.\<close>

fun isSetenv :: "event \<Rightarrow> bool" where
  "isSetenv (EvSetenv key val) = True"
| "isSetenv e = False"

fun agentWrite :: "event \<Rightarrow> bool" where
  "agentWrite (EvSetenv key val) =
     (key = ''CHARM_USE_SSH_AGENT'' \<or> key = ''CHARM_SSH_AGENT_ADDR'')"
| "agentWrite e = False"

fun isNewClient :: "event \<Rightarrow> bool" where
  "isNewClient (EvNewClient ccfg) = True"
| "isNewClient e = False"

text \<open>
  A whole test: the harness, then (the test body left out) the framework's teardown.
  \<open>setupEvents\<close> are the events of the harness, \<open>teardownEvents\<close> those of the
  teardown that follows it.
\<close>

definition runTest :: "world \<Rightarrow> signer list \<Rightarrow> state \<Rightarrow> state option" where
  "runTest w signers s =
     (case SetupTestServerWithAgent w signers s of
        None \<Rightarrow> None
      | Some (r, s') \<Rightarrow> Some (tb_Teardown w s'))"

definition setupEvents :: "world \<Rightarrow> signer list \<Rightarrow> state \<Rightarrow> event list option" where
  "setupEvents w signers s =
     (case SetupTestServerWithAgent w signers s of
        None \<Rightarrow> None
      | Some (r, s') \<Rightarrow> Some (drop (length (trace s)) (trace s')))"

definition teardownEvents :: "world \<Rightarrow> signer list \<Rightarrow> state \<Rightarrow> event list option" where
  "teardownEvents w signers s =
     (case SetupTestServerWithAgent w signers s of
        None \<Rightarrow> None
      | Some (r, s') \<Rightarrow> Some (drop (length (trace s')) (trace (tb_Teardown w s'))))"

section \<open>The readiness probe: what it returns and what it costs\<close>

text \<open>
  A run of failed attempts: while the answers are transport errors and budget remains,
  each attempt is one GET followed by a sleep of one second, and the probe goes on with
  the budget reduced by the number of attempts.
\<close>

lemma FetchURL_skip_errors:
  "\<forall>k<n. isl (http_Get w url (gets s + k)) \<Longrightarrow> int n \<le> retries \<Longrightarrow>
   FetchURL w url retries s =
   FetchURL w url (retries - int n)
     (s\<lparr>gets := gets s + n, trace := trace s @ concat (replicate n [EvGet url, EvSleep 1000])\<rparr>)"
proof (induction n arbitrary: s retries)
  case 0
  then show ?case by simp
next
  case (Suc m)
  let ?s1 = "s\<lparr>gets := Suc (gets s), trace := trace s @ [EvGet url, EvSleep 1000]\<rparr>"
  from Suc.prems(1) have "isl (http_Get w url (gets s))"
    by (metis add.right_neutral zero_less_Suc)
  then obtain e where e: "http_Get w url (gets s) = Inl e"
    by (cases "http_Get w url (gets s)") auto
  from Suc.prems(2) have pos: "0 < retries" by simp
  have step: "FetchURL w url retries s = FetchURL w url (retries - 1) ?s1"
    using e pos by (subst FetchURL.simps) (simp add: http_get_def emit_def)
  have rest: "\<forall>k<m. isl (http_Get w url (gets ?s1 + k))"
    using Suc.prems(1) by auto
  have "int m \<le> retries - 1" using Suc.prems(2) by simp
  from Suc.IH [OF rest this] step show ?case
    by (simp add: algebra_simps)
qed

text \<open>The two ways out: a transport error with no budget left, and any response.\<close>

lemma FetchURL_last_error:
  "http_Get w url (gets s) = Inl e \<Longrightarrow> retries \<le> 0 \<Longrightarrow>
   FetchURL w url retries s =
     ((None, Some e), s\<lparr>gets := Suc (gets s), trace := trace s @ [EvGet url]\<rparr>)"
  by (subst FetchURL.simps) (simp add: http_get_def emit_def)

lemma FetchURL_response:
  "http_Get w url (gets s) = Inr resp \<Longrightarrow>
   FetchURL w url retries s =
     ((Some resp,
       if StatusCode resp \<noteq> 200
       then Some (''bad http status code: '' @ itoa (StatusCode resp)) else None),
      s\<lparr>gets := Suc (gets s), trace := trace s @ [EvGet url]\<rparr>)"
  by (subst FetchURL.simps) (simp add: http_get_def emit_def)

text \<open>The probe never sends more GETs than its budget plus one.\<close>

lemma FetchURL_gets_bound:
  "gets (snd (FetchURL w url retries s)) \<le> gets s + nat retries + 1"
proof (induction w url retries s rule: FetchURL.induct)
  case (1 w url retries s)
  show ?case
  proof (cases "http_Get w url (gets s)")
    case (Inl e)
    show ?thesis
    proof (cases "0 < retries")
      case True
      have "FetchURL w url retries s =
            FetchURL w url (retries - 1) (emit [EvSleep 1000] (snd (http_get w url s)))"
        using Inl True by (subst FetchURL.simps) (simp add: http_get_def)
      moreover have "gets (snd (FetchURL w url (retries - 1) (emit [EvSleep 1000] (snd (http_get w url s)))))
          \<le> gets (emit [EvSleep 1000] (snd (http_get w url s))) + nat (retries - 1) + 1"
        using "1.IH" [of "fst (http_get w url s)" "snd (http_get w url s)" e] Inl True
        by (simp add: http_get_def)
      ultimately show ?thesis using True
        by (simp add: http_get_def emit_def)
    next
      case False
      then show ?thesis using Inl by (simp add: FetchURL_last_error)
    qed
  next
    case (Inr resp)
    then show ?thesis by (simp add: FetchURL_response)
  qed
qed

subsection \<open>Claim C1: a response that is not a success\<close>

text \<open>
  C1 says that a status other than 200 is retried like a connection error. It is not:
  against an endpoint that answers 503, a probe with a budget of 3 sends one GET, does
  not sleep, and returns the response together with the status error.
\<close>

theorem FetchURL_bad_status_counterexample:
  "FetchURL unhealthy_world ''http://localhost:7003'' 3 example_state =
     ((Some \<lparr>StatusCode = 503\<rparr>, Some ''bad http status code: 503''),
      example_state\<lparr>gets := 1, trace := [EvGet ''http://localhost:7003'']\<rparr>)"
  by (simp add: FetchURL.simps http_get_def emit_def unhealthy_world_def example_world_def
      example_state_def itoa_def digits.simps)

text \<open>
  C1 as amended: with budget left, a transport error is followed by a sleep of one second
  and a retry with the budget reduced by one; a response whose status is not 200 ends the
  probe at once, whatever the budget: the probe returns that response and the error
  \<^verbatim>\<open>bad http status code: <status>\<close>, after one GET and no sleep.
\<close>

theorem FetchURL_retry_and_bad_status:
  "(http_Get w url (gets s) = Inl e \<and> 0 < retries \<longrightarrow>
      FetchURL w url retries s =
      FetchURL w url (retries - 1)
        (s\<lparr>gets := Suc (gets s), trace := trace s @ [EvGet url, EvSleep 1000]\<rparr>)) \<and>
   (http_Get w url (gets s) = Inr resp \<and> StatusCode resp \<noteq> 200 \<longrightarrow>
      FetchURL w url retries s =
        ((Some resp, Some (''bad http status code: '' @ itoa (StatusCode resp))),
         s\<lparr>gets := Suc (gets s), trace := trace s @ [EvGet url]\<rparr>))"
proof (intro conjI impI)
  assume "http_Get w url (gets s) = Inl e \<and> 0 < retries"
  then show "FetchURL w url retries s =
      FetchURL w url (retries - 1)
        (s\<lparr>gets := Suc (gets s), trace := trace s @ [EvGet url, EvSleep 1000]\<rparr>)"
    by (subst FetchURL.simps) (simp add: http_get_def emit_def)
next
  assume "http_Get w url (gets s) = Inr resp \<and> StatusCode resp \<noteq> 200"
  then show "FetchURL w url retries s =
        ((Some resp, Some (''bad http status code: '' @ itoa (StatusCode resp))),
         s\<lparr>gets := Suc (gets s), trace := trace s @ [EvGet url]\<rparr>)"
    by (simp add: FetchURL_response)
qed

theorem FetchURL_retry_and_bad_status_witness:
  "FetchURL silent_world ''u'' 1 example_state =
     FetchURL silent_world ''u'' 0
       (example_state\<lparr>gets := 1, trace := [EvGet ''u'', EvSleep 1000]\<rparr>) \<and>
   FetchURL unhealthy_world ''u'' 1 example_state =
     ((Some \<lparr>StatusCode = 503\<rparr>, Some (''bad http status code: '' @ itoa 503)),
      example_state\<lparr>gets := 1, trace := [EvGet ''u'']\<rparr>)"
  using FetchURL_retry_and_bad_status [of silent_world "''u''" example_state "''connection refused''" 1]
    FetchURL_retry_and_bad_status [of unhealthy_world "''u''" example_state _ 1 "\<lparr>StatusCode = 503\<rparr>"]
  by (simp add: silent_world_def unhealthy_world_def example_world_def example_state_def)

subsection \<open>Claim C5: an endpoint that never responds\<close>

text \<open>
  C5: for every budget \<open>retries \<ge> 1\<close>, when every attempt the probe makes ends in a
  transport error (as it does against an endpoint that never responds), the probe makes
  exactly \<open>retries + 1\<close> attempts, with a sleep of one second between two attempts, and
  returns a nil response with the error of the last attempt.
\<close>

theorem FetchURL_never_responding: 
  assumes "1 \<le> retries"
    and "\<forall>k \<le> nat retries. isl (http_Get w url (gets s + k))"
  shows "FetchURL w url retries s =
     ((None, Some (projl (http_Get w url (gets s + nat retries)))),
      s\<lparr>gets := gets s + (nat retries + 1),
        trace := trace s @ concat (replicate (nat retries) [EvGet url, EvSleep 1000])
                   @ [EvGet url]\<rparr>)"
proof -
  let ?n = "nat retries"
  let ?s = "s\<lparr>gets := gets s + ?n,
               trace := trace s @ concat (replicate ?n [EvGet url, EvSleep 1000])\<rparr>"
  have "FetchURL w url retries s = FetchURL w url (retries - int ?n) ?s"
    using assms by (intro FetchURL_skip_errors) auto
  moreover have "http_Get w url (gets ?s) = Inl (projl (http_Get w url (gets s + ?n)))"
    using assms(2) by simp
  ultimately show ?thesis
    using assms(1) by (simp add: FetchURL_last_error)
qed

theorem FetchURL_never_responding_witness:
  "1 \<le> (2::int) \<and>
   FetchURL silent_world ''u'' 2 example_state =
     ((None, Some ''connection refused''),
      example_state\<lparr>gets := 3,
        trace := [EvGet ''u'', EvSleep 1000, EvGet ''u'', EvSleep 1000, EvGet ''u'']\<rparr>)"
  using FetchURL_never_responding [of 2 silent_world "''u''" example_state]
  by (simp add: silent_world_def example_world_def example_state_def eval_nat_numeral)

subsection \<open>Claim C6: success on the N-th attempt\<close>

text \<open>
  C6: when the first \<open>n\<close> attempts end in transport errors, \<open>n \<le> retries\<close>, and attempt
  \<open>N = n + 1\<close> is answered with status 200, the probe returns that response with a nil
  error, and it has made exactly \<open>N\<close> attempts: none after the successful one.
\<close>

theorem FetchURL_success_on_nth:
  assumes "int n \<le> retries"
    and "\<forall>k<n. isl (http_Get w url (gets s + k))"
    and "http_Get w url (gets s + n) = Inr resp"
    and "StatusCode resp = 200"
  shows "FetchURL w url retries s =
     ((Some resp, None),
      s\<lparr>gets := gets s + (n + 1),
        trace := trace s @ concat (replicate n [EvGet url, EvSleep 1000]) @ [EvGet url]\<rparr>)"
proof -
  let ?s = "s\<lparr>gets := gets s + n,
               trace := trace s @ concat (replicate n [EvGet url, EvSleep 1000])\<rparr>"
  have "FetchURL w url retries s = FetchURL w url (retries - int n) ?s"
    using assms(1,2) by (intro FetchURL_skip_errors) auto
  moreover have "http_Get w url (gets ?s) = Inr resp"
    using assms(3) by simp
  ultimately show ?thesis
    using assms(4) by (simp add: FetchURL_response)
qed


theorem FetchURL_success_on_nth_witness:
  "int 2 \<le> 3 \<and>
   FetchURL example_world ''u'' 3 example_state =
     ((Some \<lparr>StatusCode = 200\<rparr>, None),
      example_state\<lparr>gets := 3,
        trace := [EvGet ''u'', EvSleep 1000, EvGet ''u'', EvSleep 1000, EvGet ''u'']\<rparr>)"
  using FetchURL_success_on_nth [of 2 3 example_world "''u''" example_state "\<lparr>StatusCode = 200\<rparr>"]
  by (simp add: example_world_def example_state_def eval_nat_numeral)

subsection \<open>Claim C10: budgets of zero and below\<close>

text \<open>
  C10: the probe is total for every integer budget (it is a total function, by the
  termination proof of its definition, and it never sends more than \<open>nat retries + 1\<close>
  GETs); with a budget of zero or less, an attempt that ends in a transport error is
  the only one: the probe returns a nil response with that error, without sleeping.
\<close>

theorem FetchURL_total_nonpositive:
  "gets (snd (FetchURL w url retries s)) \<le> gets s + nat retries + 1 \<and>
   (retries \<le> 0 \<and> http_Get w url (gets s) = Inl e \<longrightarrow>
      FetchURL w url retries s =
        ((None, Some e), s\<lparr>gets := Suc (gets s), trace := trace s @ [EvGet url]\<rparr>))"
  using FetchURL_gets_bound [of w url retries s] by (simp add: FetchURL_last_error)

theorem FetchURL_total_nonpositive_witness:
  "FetchURL silent_world ''u'' 0 example_state =
     ((None, Some ''connection refused''),
      example_state\<lparr>gets := 1, trace := [EvGet ''u'']\<rparr>) \<and>
   FetchURL silent_world ''u'' (- 5) example_state =
     ((None, Some ''connection refused''),
      example_state\<lparr>gets := 1, trace := [EvGet ''u'']\<rparr>)"
  using FetchURL_total_nonpositive [of silent_world "''u''" 0 example_state "''connection refused''"]
    FetchURL_total_nonpositive [of silent_world "''u''" "- 5" example_state "''connection refused''"]
  by (simp add: silent_world_def example_world_def example_state_def)

section \<open>The orchestrator: what each phase does to the trace and the environment\<close>

subsection \<open>Events, environment writes, the port allocator\<close>

lemma emit_simps:
  "trace (emit evs s) = trace s @ evs" "env (emit evs s) = env s"
  "cleanups (emit evs s) = cleanups s" "sockets (emit evs s) = sockets s"
  "gets (emit evs s) = gets s" "polls (emit evs s) = polls s"
  by (simp_all add: emit_def)

lemma os_Setenv_simps:
  "trace (os_Setenv key val s) = trace s @ [EvSetenv key val]"
  "cleanups (os_Setenv key val s) = cleanups s"
  "sockets (os_Setenv key val s) = sockets s"
  "gets (os_Setenv key val s) = gets s"
  "polls (os_Setenv key val s) = polls s"
  "reads (os_Setenv key val s) = reads s"
  "builds (os_Setenv key val s) = builds s"
  by (simp_all add: os_Setenv_def emit_def Let_def)

lemma os_Setenv_env_other: "k \<noteq> key \<Longrightarrow> env (os_Setenv key val s) k = env s k"
  by (simp add: os_Setenv_def emit_def Let_def)

lemma os_Unsetenv_simps:
  "trace (os_Unsetenv key s) = trace s @ [EvUnsetenv key]"
  "cleanups (os_Unsetenv key s) = cleanups s"
  by (simp_all add: os_Unsetenv_def emit_def)


lemma randomPort_frame:
  "randomPort w s = (r, s1) \<Longrightarrow>
   trace s1 = trace s @ [EvListen] \<and> env s1 = env s \<and> cleanups s1 = cleanups s \<and>
   sockets s1 = sockets s \<and> gets s1 = gets s \<and> polls s1 = polls s"
  by (auto simp: randomPort_def emit_def Let_def split: sum.splits)

text \<open>The probe touches nothing but the trace and its own counter.\<close>

lemma FetchURL_frame:
  "FetchURL w url retries s = (r, s') \<Longrightarrow>
   env s' = env s \<and> cleanups s' = cleanups s \<and> sockets s' = sockets s \<and> polls s' = polls s \<and>
   (\<exists>evs. trace s' = trace s @ evs \<and> set evs \<subseteq> {EvGet url, EvSleep 1000})"
proof (induction w url retries s arbitrary: r s' rule: FetchURL.induct)
  case (1 w url retries s)
  show ?case
  proof (cases "http_Get w url (gets s)")
    case (Inl e)
    show ?thesis
    proof (cases "0 < retries")
      case True
      let ?s1 = "emit [EvSleep 1000] (snd (http_get w url s))"
      have "FetchURL w url (retries - 1) ?s1 = (r, s')"
        using Inl True "1.prems" by (subst (asm) FetchURL.simps) (simp add: http_get_def)
      from "1.IH" [of "fst (http_get w url s)" "snd (http_get w url s)" e, OF _ _ True this]
      have "env s' = env ?s1 \<and> cleanups s' = cleanups ?s1 \<and> sockets s' = sockets ?s1 \<and>
            polls s' = polls ?s1 \<and>
            (\<exists>evs. trace s' = trace ?s1 @ evs \<and> set evs \<subseteq> {EvGet url, EvSleep 1000})"
        using Inl by (simp add: http_get_def)
      then obtain evs where "env s' = env s" "cleanups s' = cleanups s" "sockets s' = sockets s"
          "polls s' = polls s"
          "trace s' = trace s @ ([EvGet url, EvSleep 1000] @ evs)"
          "set evs \<subseteq> {EvGet url, EvSleep 1000}"
        by (auto simp: http_get_def emit_def)
      then show ?thesis by (intro conjI exI [of _ "[EvGet url, EvSleep 1000] @ evs"]) auto
    next
      case False
      then show ?thesis using Inl "1.prems" by (auto simp: FetchURL_last_error)
    qed
  next
    case (Inr resp)
    then show ?thesis using "1.prems" by (auto simp: FetchURL_response)
  qed
qed

subsection \<open>The wait for the agent\<close>

text \<open>
  When the loop returns, it has polled \<open>n\<close> times in vain, slept 100 ms after each, and
  then seen the flag true. It returns exactly when the flag is true at some poll; when
  the flag is never true it does not return.
\<close>

lemma waitReady_Some:
  assumes "waitReady w s = Some s'"
  shows "env s' = env s \<and> cleanups s' = cleanups s \<and> sockets s' = sockets s \<and>
   (\<exists>n. trace s' = trace s @ concat (replicate n [EvAgentReady False, EvSleep 100])
                       @ [EvAgentReady True] \<and>
        polls s' = polls s + n + 1 \<and> agent_Ready w (polls s + n) \<and>
        (\<forall>k<n. \<not> agent_Ready w (polls s + k)))"
proof (induct rule: waitReady.raw_induct [OF _ assms])
  case (1 waitR w s s')
  show ?case
  proof (cases "agent_Ready w (polls s)")
    case True
    with "1"(2) have "s' = (emit [EvAgentReady True] s)\<lparr>polls := Suc (polls s)\<rparr>"
      by (simp add: Let_def)
    with True show ?thesis
      by (intro conjI exI [of _ 0]) (simp_all add: emit_def)
  next
    case False
    let ?s1 = "emit [EvSleep 100] ((emit [EvAgentReady False] s)\<lparr>polls := Suc (polls s)\<rparr>)"
    from False "1"(2) have step: "waitR w ?s1 = Some s'"
      by (simp add: Let_def)
    note IH = "1"(1) [OF step]
    from IH have fr: "env s' = env s" "cleanups s' = cleanups s" "sockets s' = sockets s"
      by (simp_all add: emit_def)
    from IH obtain n where
      tr: "trace s' = trace ?s1 @ concat (replicate n [EvAgentReady False, EvSleep 100])
                 @ [EvAgentReady True]"
      and po: "polls s' = polls ?s1 + n + 1" "agent_Ready w (polls ?s1 + n)"
          "\<forall>k<n. \<not> agent_Ready w (polls ?s1 + k)"
      by blast
    have "\<forall>k<Suc n. \<not> agent_Ready w (polls s + k)"
    proof (intro allI impI)
      fix k assume "k < Suc n"
      show "\<not> agent_Ready w (polls s + k)"
      proof (cases k)
        case 0
        with False show ?thesis by simp
      next
        case (Suc j)
        with \<open>k < Suc n\<close> po(3) show ?thesis by (auto simp: emit_def)
      qed
    qed
    with fr tr po show ?thesis
      by (intro conjI exI [of _ "Suc n"]) (simp_all add: emit_def)
  qed
qed

lemma waitReady_returns:
  "agent_Ready w (polls s + n) \<Longrightarrow> \<exists>s'. waitReady w s = Some s'"
proof (induction n arbitrary: s)
  case 0
  then show ?case by (subst waitReady.simps) (simp add: Let_def)
next
  case (Suc n)
  show ?case
  proof (cases "agent_Ready w (polls s)")
    case True
    then show ?thesis by (subst waitReady.simps) (simp add: Let_def)
  next
    case False
    let ?s1 = "emit [EvSleep 100] ((emit [EvAgentReady False] s)\<lparr>polls := Suc (polls s)\<rparr>)"
    have "agent_Ready w (polls ?s1 + n)" using Suc.prems by (simp add: emit_def)
    from Suc.IH [OF this] False show ?thesis
      by (subst waitReady.simps) (simp add: Let_def)
  qed
qed

lemma waitReady_diverges:
  "\<forall>n. \<not> agent_Ready w (polls s + n) \<Longrightarrow> waitReady w s = None"
  using waitReady_Some [of w s] by (cases "waitReady w s") auto

subsection \<open>Configuration, environment, agent, clients\<close>

lemma serverConfig_frame:
  "serverConfig w td s = (r, s1) \<Longrightarrow>
   env s1 = env s \<and> cleanups s1 = cleanups s \<and> sockets s1 = sockets s \<and>
   (\<exists>evs. trace s1 = trace s @ evs \<and> (\<forall>e\<in>set evs. \<not> isSetenv e \<and> \<not> isNewClient e))"
  unfolding serverConfig_def Let_def
  by (auto simp: emit_def split: prod.splits sum.splits option.splits
      dest!: randomPort_frame)

lemma serverConfig_Inr:
  "serverConfig w td s = (Inr cfg, s1) \<Longrightarrow>
   trace s1 = trace s @ [EvListen, EvListen, EvListen,
     EvKeygen (filepath_Join w (filepath_Join w td ''.ssh'') ''charm_server''),
     EvNewServer cfg]"
  unfolding serverConfig_def Let_def
  by (auto simp: emit_def split: prod.splits sum.splits option.splits
      dest!: randomPort_frame)

lemma publishEnv_frame:
  "trace (publishEnv cfg clientData s) = trace s @
     [EvSetenv ''CHARM_HOST'' (srv_Host cfg),
      EvSetenv ''CHARM_SSH_PORT'' (itoa (srv_SSHPort cfg)),
      EvSetenv ''CHARM_HTTP_PORT'' (itoa (srv_HTTPPort cfg)),
      EvSetenv ''CHARM_DATA_DIR'' clientData]"
  "cleanups (publishEnv cfg clientData s) = cleanups s"
  "sockets (publishEnv cfg clientData s) = sockets s"
  by (simp_all add: publishEnv_def os_Setenv_simps)

lemma publishEnv_env_agent:
  "env (publishEnv cfg clientData s) ''CHARM_USE_SSH_AGENT'' = env s ''CHARM_USE_SSH_AGENT''"
  "env (publishEnv cfg clientData s) ''CHARM_SSH_AGENT_ADDR'' = env s ''CHARM_SSH_AGENT_ADDR''"
  by (simp_all add: publishEnv_def os_Setenv_env_other)

lemma startAgent_none:
  "startAgent w [] s = Some (None, s)"
  by (simp add: startAgent_def)

lemma startAgent_some:
  assumes "signers \<noteq> []" and "startAgent w signers s = Some (agt, s')"
  shows "agt = Some (Agent signers) \<and> env s' = env s \<and> sockets s' = sockets s \<and>
    cleanups s' = AgentCleanup (Agent signers) # cleanups s \<and>
    (\<exists>n. trace s' = trace s @ [EvAgentNew signers, EvAgentStart]
             @ concat (replicate n [EvAgentReady False, EvSleep 100])
             @ [EvAgentReady True,
                EvLog (''fake ssh agent ready with '' @ itoa (int (length signers)) @ '' keys'')])"
proof -
  let ?s2 = "(emit [EvAgentNew signers, EvAgentStart] s)
               \<lparr>cleanups := AgentCleanup (Agent signers) # cleanups s\<rparr>"
  from assms obtain s3 where w3: "waitReady w ?s2 = Some s3"
    and res: "agt = Some (Agent signers)"
      "s' = emit [EvLog (''fake ssh agent ready with '' @ itoa (int (length signers))
                    @ '' keys'')] s3"
    by (auto simp: startAgent_def Let_def emit_def split: option.splits)
  from waitReady_Some [OF w3] obtain n where
    "env s3 = env s" "cleanups s3 = AgentCleanup (Agent signers) # cleanups s"
    "sockets s3 = sockets s"
    "trace s3 = trace s @ [EvAgentNew signers, EvAgentStart]
       @ concat (replicate n [EvAgentReady False, EvSleep 100]) @ [EvAgentReady True]"
    by (auto simp: emit_def)
  with res show ?thesis
    by (intro conjI exI [of _ n]) (simp_all add: emit_def)
qed

lemma startAgent_frame:
  assumes "startAgent w signers s = Some (agt, s')"
  shows "env s' = env s \<and> sockets s' = sockets s \<and>
    (\<exists>evs. trace s' = trace s @ evs \<and> (\<forall>e\<in>set evs. \<not> isSetenv e \<and> \<not> isNewClient e))"
proof (cases "signers = []")
  case True
  with assms show ?thesis by (simp add: startAgent_none)
next
  case False
  from startAgent_some [OF False assms] show ?thesis by auto
qed

lemma newClients_no_agent:
  assumes "newClients w cfg clientData None s = (r, s')"
  shows "env s' = env s \<and> cleanups s' = cleanups s \<and>
    (\<exists>evs. trace s' = trace s @ evs \<and> (\<forall>e\<in>set evs. \<not> isSetenv e)) \<and>
    (\<forall>clients. r = Inr clients \<longrightarrow> Full clients = None)"
  using assms unfolding newClients_def ConfigFromEnv_def NewClient_def Let_def
  by (auto simp: emit_def split: prod.splits sum.splits option.splits)

lemma newClients_frame:
  assumes "newClients w cfg clientData agt s = (r, s')"
  shows "cleanups s' = cleanups s \<and>
    (\<exists>evs. trace s' = trace s @ evs \<and> (\<forall>e\<in>set evs. isSetenv e \<longrightarrow> agentWrite e))"
  using assms unfolding newClients_def ConfigFromEnv_def NewClient_def agt_Socket_def Let_def
  by (auto simp: emit_def os_Setenv_simps split: prod.splits sum.splits option.splits)


subsection \<open>The runs of the orchestrator\<close>

text \<open>
  A call that returns either was aborted while the server was configured, or was aborted
  by the probe, or got past the probe: then the agent phase returned, the second closure
  was registered, and the client phase decided the result.
\<close>

lemma Setup_cases:
  assumes "SetupTestServerWithAgent w signers s = Some (r, s')"
  obtains
    (config_fatal) msg where
      "serverConfig w (tb_TempDir w) s = (Inl msg, s')" "r = Inl msg"
  | (probe_fatal) cfg s1 resp err where
      "serverConfig w (tb_TempDir w) s = (Inr cfg, s1)"
      "FetchURL w (''http://localhost:'' @ itoa (srv_HealthPort cfg)) 3
         (emit [EvServerStart]
           (publishEnv cfg (filepath_Join w (tb_TempDir w) ''.client-data'') s1))
       = ((resp, Some err), s')"
      "r = Inl (''server likely failed to start: '' @ err)"
  | (ready) cfg s1 resp s3 agt s4 s6 where
      "serverConfig w (tb_TempDir w) s = (Inr cfg, s1)"
      "FetchURL w (''http://localhost:'' @ itoa (srv_HealthPort cfg)) 3
         (emit [EvServerStart]
           (publishEnv cfg (filepath_Join w (tb_TempDir w) ''.client-data'') s1))
       = ((resp, None), s3)"
      "startAgent w signers (emit [EvLog ''server ready!''] s3) = Some (agt, s4)"
      "newClients w cfg (filepath_Join w (tb_TempDir w) ''.client-data'') agt
         (s4\<lparr>cleanups := ServerCleanup agt # cleanups s4\<rparr>) = (r, s6)"
      "s' = emit [EvBodyClose] s6"
  using assms unfolding SetupTestServerWithAgent_def Let_def
  by (auto split: prod.splits sum.splits option.splits)

text \<open>What a run leaves registered for teardown.\<close>

lemma Setup_registered:
  assumes "SetupTestServerWithAgent w signers s = Some (r, s')"
  shows "cleanups s' = cleanups s \<or>
     cleanups s' =
       (if signers = [] then [ServerCleanup None]
        else [ServerCleanup (Some (Agent signers)), AgentCleanup (Agent signers)])
       @ cleanups s"
  using assms
proof (cases rule: Setup_cases)
  case (config_fatal msg)
  then show ?thesis using serverConfig_frame by blast
next
  case (probe_fatal cfg s1 resp err)
  from serverConfig_frame [OF probe_fatal(1)] FetchURL_frame [OF probe_fatal(2)]
  show ?thesis by (simp add: publishEnv_frame emit_def)
next
  case (ready cfg s1 resp s3 agt s4 s6)
  from serverConfig_frame [OF ready(1)] FetchURL_frame [OF ready(2)]
  have c3: "cleanups s3 = cleanups s" by (simp add: publishEnv_frame emit_def)
  from newClients_frame [OF ready(4)] ready(5)
  have c': "cleanups s' = ServerCleanup agt # cleanups s4" by (simp add: emit_def)
  show ?thesis
  proof (cases "signers = []")
    case True
    with ready(3) have "agt = None" "s4 = emit [EvLog ''server ready!''] s3"
      by (simp_all add: startAgent_none)
    with c' c3 True show ?thesis by (simp add: emit_def)
  next
    case False
    from startAgent_some [OF False ready(3)] c' c3 False show ?thesis
      by (simp add: emit_def)
  qed
qed

text \<open>With no signer the call always returns, and the agent is left alone.\<close>

lemma Setup_no_signers_returns:
  "\<exists>r s'. SetupTestServerWithAgent w [] s = Some (r, s')"
  unfolding SetupTestServerWithAgent_def Let_def
  by (auto simp: startAgent_none split: prod.splits sum.splits option.splits)

lemma Setup_no_signers:
  assumes run: "SetupTestServerWithAgent w [] s = Some (r, s')"
  shows "env s' ''CHARM_USE_SSH_AGENT'' = env s ''CHARM_USE_SSH_AGENT'' \<and>
    env s' ''CHARM_SSH_AGENT_ADDR'' = env s ''CHARM_SSH_AGENT_ADDR'' \<and>
    (\<exists>evs. trace s' = trace s @ evs \<and> (\<forall>e\<in>set evs. \<not> agentWrite e)) \<and>
    (\<forall>clients. r = Inr clients \<longrightarrow> Full clients = None)"
  using run
proof (cases rule: Setup_cases)
  case (config_fatal msg)
  from serverConfig_frame [OF config_fatal(1)] obtain evs where
    "env s' = env s" "trace s' = trace s @ evs" "\<forall>e\<in>set evs. \<not> isSetenv e" by auto
  moreover have "\<not> agentWrite e" if "\<not> isSetenv e" for e using that by (cases e) auto
  ultimately show ?thesis using config_fatal(2) by auto
next
  case (probe_fatal cfg s1 resp err)
  let ?cd = "filepath_Join w (tb_TempDir w) ''.client-data''"
  from serverConfig_frame [OF probe_fatal(1)] serverConfig_Inr [OF probe_fatal(1)]
  have s1: "env s1 = env s" "\<exists>evs. trace s1 = trace s @ evs \<and> (\<forall>e\<in>set evs. \<not> agentWrite e)"
    by auto
  from FetchURL_frame [OF probe_fatal(2)] obtain fs where
    f: "env s' = env (publishEnv cfg ?cd s1)"
      "trace s' = trace (publishEnv cfg ?cd s1) @ [EvServerStart] @ fs"
      "set fs \<subseteq> {EvGet (''http://localhost:'' @ itoa (srv_HealthPort cfg)), EvSleep 1000}"
    by (auto simp: emit_def)
  from f(3) have fs: "\<forall>e\<in>set fs. \<not> agentWrite e" by auto
  from s1 f(1,2) fs probe_fatal(3) show ?thesis
    by (auto simp: publishEnv_frame publishEnv_env_agent)
next
  case (ready cfg s1 resp s3 agt s4 s6)
  let ?cd = "filepath_Join w (tb_TempDir w) ''.client-data''"
  from serverConfig_frame [OF ready(1)] serverConfig_Inr [OF ready(1)]
  have s1: "env s1 = env s" "\<exists>evs. trace s1 = trace s @ evs \<and> (\<forall>e\<in>set evs. \<not> agentWrite e)"
    by auto
  from FetchURL_frame [OF ready(2)] obtain fs where
    f: "env s3 = env (publishEnv cfg ?cd s1)"
      "trace s3 = trace (publishEnv cfg ?cd s1) @ [EvServerStart] @ fs"
      "set fs \<subseteq> {EvGet (''http://localhost:'' @ itoa (srv_HealthPort cfg)), EvSleep 1000}"
    by (auto simp: emit_def)
  from f(3) have fs: "\<forall>e\<in>set fs. \<not> agentWrite e" by auto
  from ready(3) have a: "agt = None" "s4 = emit [EvLog ''server ready!''] s3"
    by (simp_all add: startAgent_none)
  from newClients_no_agent [OF ready(4) [unfolded a]] obtain cs where
    n: "env s6 = env s3" "trace s6 = trace s3 @ [EvLog ''server ready!''] @ cs"
      "\<forall>e\<in>set cs. \<not> isSetenv e" "\<forall>clients. r = Inr clients \<longrightarrow> Full clients = None"
    by (auto simp: emit_def)
  have "\<not> agentWrite e" if "\<not> isSetenv e" for e using that by (cases e) auto
  with n(3) have cs: "\<forall>e\<in>set cs. \<not> agentWrite e" by blast
  from s1 f(1,2) fs n(1,2,4) cs ready(5) show ?thesis
    by (auto simp: publishEnv_frame publishEnv_env_agent emit_def)
qed


text \<open>
  The call returns whenever the agent's flag is true at some poll from now on; the
  wait for the agent is the only place where it can fail to return.
\<close>

lemma serverConfig_polls:
  "serverConfig w td s = (r, s1) \<Longrightarrow> polls s1 = polls s"
  unfolding serverConfig_def Let_def
  by (auto simp: emit_def split: prod.splits sum.splits option.splits
      dest!: randomPort_frame)

lemma startAgent_returns:
  assumes "agent_Ready w (polls s + n)"
  shows "\<exists>agt s'. startAgent w signers s = Some (agt, s')"
proof (cases "signers = []")
  case True
  then show ?thesis by (simp add: startAgent_none)
next
  case False
  let ?s2 = "(emit [EvAgentNew signers, EvAgentStart] s)
               \<lparr>cleanups := AgentCleanup (Agent signers) # cleanups s\<rparr>"
  have "agent_Ready w (polls ?s2 + n)" using assms by (simp add: emit_def)
  from waitReady_returns [OF this] obtain s3 where "waitReady w ?s2 = Some s3" by blast
  with False show ?thesis by (simp add: startAgent_def Let_def emit_def)
qed

lemma Setup_returns:
  assumes "agent_Ready w (polls s + n)"
  shows "\<exists>r s'. SetupTestServerWithAgent w signers s = Some (r, s')"
proof -
  let ?cd = "filepath_Join w (tb_TempDir w) ''.client-data''"
  obtain rc s1 where sc: "serverConfig w (tb_TempDir w) s = (rc, s1)"
    by (cases "serverConfig w (tb_TempDir w) s")
  show ?thesis
  proof (cases rc)
    case (Inl msg)
    with sc show ?thesis by (simp add: SetupTestServerWithAgent_def)
  next
    case (Inr cfg)
    let ?s2 = "emit [EvServerStart] (publishEnv cfg ?cd s1)"
    obtain resp err s3 where
      f: "FetchURL w (''http://localhost:'' @ itoa (srv_HealthPort cfg)) 3 ?s2
            = ((resp, err), s3)"
      by (metis surj_pair)
    show ?thesis
    proof (cases err)
      case (Some e)
      with sc Inr f show ?thesis by (simp add: SetupTestServerWithAgent_def)
    next
      case None
      from FetchURL_frame [OF f] serverConfig_polls [OF sc]
      have "polls (emit [EvLog ''server ready!''] s3) = polls s"
        by (simp add: emit_def publishEnv_def os_Setenv_simps)
      with assms have "agent_Ready w (polls (emit [EvLog ''server ready!''] s3) + n)"
        by simp
      from startAgent_returns [OF this] obtain agt s4 where
        "startAgent w signers (emit [EvLog ''server ready!''] s3) = Some (agt, s4)" by blast
      with sc Inr f None show ?thesis
        by (simp add: SetupTestServerWithAgent_def split: prod.splits)
    qed
  qed
qed

subsection \<open>The teardown closures\<close>

lemma runCleanup_server_trace:
  "trace (runCleanup w (ServerCleanup agt) s) = trace s @ [EvServerClose]
     @ (case server_Close w of
          Some err \<Rightarrow> [EvError (''failed to close server: '' @ err)]
        | None \<Rightarrow> [])
     @ [EvUnsetenv ''CHARM_HOST'', EvUnsetenv ''CHARM_SSH_PORT'',
        EvUnsetenv ''CHARM_HTTP_PORT'', EvUnsetenv ''CHARM_DATA_DIR'']
     @ (if agt \<noteq> None
        then [EvUnsetenv ''CHARM_USE_SSH_AGENT'', EvUnsetenv ''CHARM_SSH_AGENT_ADDR'']
        else [])"
  by (simp add: Let_def os_Unsetenv_simps emit_def split: option.splits)


lemma runCleanup_agent_trace:
  "trace (runCleanup w (AgentCleanup a) s) = trace s @ [EvAgentClose]"
  by (simp add: emit_def)

lemma runCleanups_append:
  "runCleanups w (xs @ ys) s = runCleanups w ys (runCleanups w xs s)"
  by (induction xs arbitrary: s) simp_all

lemma Teardown_registered:
  assumes run: "SetupTestServerWithAgent w signers s = Some (r, s')"
    and reg: "cleanups s' \<noteq> cleanups s"
  shows "tb_Teardown w s' =
    runCleanups w (cleanups s)
      (if signers = [] then runCleanup w (ServerCleanup None) (s'\<lparr>cleanups := []\<rparr>)
       else runCleanup w (AgentCleanup (Agent signers))
              (runCleanup w (ServerCleanup (Some (Agent signers))) (s'\<lparr>cleanups := []\<rparr>)))"
proof -
  from Setup_registered [OF run] reg
  have "cleanups s' =
       (if signers = [] then [ServerCleanup None]
        else [ServerCleanup (Some (Agent signers)), AgentCleanup (Agent signers)])
       @ cleanups s" by blast
  then show ?thesis
    by (cases "signers = []") (simp_all add: tb_Teardown_def del: runCleanup.simps)
qed

subsection \<open>The example runs\<close>

lemmas eval_defs =
  SetupTestServerWithAgent_def serverConfig_def randomPort_def publishEnv_def os_Setenv_def
  os_Unsetenv_def startAgent_def newClients_def ConfigFromEnv_def NewClient_def agt_Socket_def
  http_get_def emit_def tb_Teardown_def runTest_def setupEvents_def teardownEvents_def
  example_world_def example_state_def ambient_state_def example_config_def itoa_def
  Let_def FetchURL.simps waitReady.simps digits.simps

lemma example_run_agent:
  "\<exists>r s'. SetupTestServerWithAgent example_world [Signer ''a''] example_state = Some (r, s') \<and>
     cleanups s' \<noteq> cleanups example_state \<and> trace example_state = []"
  by (simp add: eval_defs)



lemma example_server_config:
  "\<exists>s1. serverConfig example_world (tb_TempDir example_world) example_state =
     (Inr \<lparr>srv_Host = ''localhost'', srv_SSHPort = 7001, srv_HTTPPort = 7002,
           srv_HealthPort = 7003, srv_DataDir = ''/tmp/t/.data'',
           srv_PublicKey = ''pub'', srv_PrivateKey = ''pem''\<rparr>, s1)"
  by (simp add: eval_defs)

lemma example_run_plain:
  "\<exists>r s'. SetupTestServerWithAgent example_world [] example_state = Some (r, s')"
  by (simp add: eval_defs)

section \<open>The environment\<close>

subsection \<open>Claim C3: the variables written once the server exists\<close>

text \<open>
  C3 counts five variables and names the health port among them. The harness calls
  \<^verbatim>\<open>os.Setenv\<close> four times (lines 60 to 63): in the example run with no signer these
  are all the writes, the environment holds four variables afterwards, and none of them
  is the health port 7003.
\<close>

theorem env_published_counterexample:
  "map_option (filter isSetenv) (setupEvents example_world [] example_state) =
     Some [EvSetenv ''CHARM_HOST'' ''localhost'',
           EvSetenv ''CHARM_SSH_PORT'' ''7001'',
           EvSetenv ''CHARM_HTTP_PORT'' ''7002'',
           EvSetenv ''CHARM_DATA_DIR'' ''/tmp/t/.client-data''] \<and>
   map_option (env \<circ> snd) (SetupTestServerWithAgent example_world [] example_state) =
     Some [''CHARM_HOST'' \<mapsto> ''localhost'', ''CHARM_SSH_PORT'' \<mapsto> ''7001'',
           ''CHARM_HTTP_PORT'' \<mapsto> ''7002'', ''CHARM_DATA_DIR'' \<mapsto> ''/tmp/t/.client-data'']"
  by (simp add: eval_defs)

text \<open>
  C3 as amended: right after the server is built from the final configuration, and
  before it is started, the harness writes exactly four variables: \<^verbatim>\<open>CHARM_HOST\<close>
  (the host), \<^verbatim>\<open>CHARM_SSH_PORT\<close> and \<^verbatim>\<open>CHARM_HTTP_PORT\<close> (two of the three ports,
  in decimal) and \<^verbatim>\<open>CHARM_DATA_DIR\<close> (the client's data directory). The health port
  is not written: the only later writes are those of the two agent variables.
\<close>

theorem env_published_after_server:
  assumes run: "SetupTestServerWithAgent w signers s = Some (r, s')"
    and sc: "serverConfig w (tb_TempDir w) s = (Inr cfg, s1)"
  shows "\<exists>rest. trace s' = trace s @
      [EvListen, EvListen, EvListen,
       EvKeygen (filepath_Join w (filepath_Join w (tb_TempDir w) ''.ssh'') ''charm_server''),
       EvNewServer cfg,
       EvSetenv ''CHARM_HOST'' (srv_Host cfg),
       EvSetenv ''CHARM_SSH_PORT'' (itoa (srv_SSHPort cfg)),
       EvSetenv ''CHARM_HTTP_PORT'' (itoa (srv_HTTPPort cfg)),
       EvSetenv ''CHARM_DATA_DIR'' (filepath_Join w (tb_TempDir w) ''.client-data''),
       EvServerStart] @ rest \<and>
     (\<forall>e\<in>set rest. isSetenv e \<longrightarrow> agentWrite e)"
  using run
proof (cases rule: Setup_cases)
  case (config_fatal msg)
  with sc show ?thesis by simp
next
  case (probe_fatal cfg' s1' resp err)
  with sc have eq: "cfg' = cfg" "s1' = s1" by simp_all
  from FetchURL_frame [OF probe_fatal(2) [unfolded eq]] obtain fs where
    f: "trace s' = trace s1 @
         [EvSetenv ''CHARM_HOST'' (srv_Host cfg),
          EvSetenv ''CHARM_SSH_PORT'' (itoa (srv_SSHPort cfg)),
          EvSetenv ''CHARM_HTTP_PORT'' (itoa (srv_HTTPPort cfg)),
          EvSetenv ''CHARM_DATA_DIR'' (filepath_Join w (tb_TempDir w) ''.client-data''),
          EvServerStart] @ fs"
      "set fs \<subseteq> {EvGet (''http://localhost:'' @ itoa (srv_HealthPort cfg)), EvSleep 1000}"
    by (auto simp: emit_def publishEnv_frame)
  from f(2) have "\<forall>e\<in>set fs. isSetenv e \<longrightarrow> agentWrite e" by auto
  with f(1) serverConfig_Inr [OF sc] show ?thesis by (intro exI [of _ fs]) simp
next
  case (ready cfg' s1' resp s3 agt s4 s6)
  with sc have eq: "cfg' = cfg" "s1' = s1" by simp_all
  from FetchURL_frame [OF ready(2) [unfolded eq]] obtain fs where
    f: "trace s3 = trace s1 @
         [EvSetenv ''CHARM_HOST'' (srv_Host cfg),
          EvSetenv ''CHARM_SSH_PORT'' (itoa (srv_SSHPort cfg)),
          EvSetenv ''CHARM_HTTP_PORT'' (itoa (srv_HTTPPort cfg)),
          EvSetenv ''CHARM_DATA_DIR'' (filepath_Join w (tb_TempDir w) ''.client-data''),
          EvServerStart] @ fs"
      "set fs \<subseteq> {EvGet (''http://localhost:'' @ itoa (srv_HealthPort cfg)), EvSleep 1000}"
    by (auto simp: emit_def publishEnv_frame)
  from f(2) have fs: "\<forall>e\<in>set fs. isSetenv e \<longrightarrow> agentWrite e" by auto
  from startAgent_frame [OF ready(3)] obtain as where
    a: "trace s4 = trace s3 @ [EvLog ''server ready!''] @ as" "\<forall>e\<in>set as. \<not> isSetenv e"
    by (auto simp: emit_def)
  from newClients_frame [OF ready(4)] obtain cs where
    c: "trace s6 = trace s4 @ cs" "\<forall>e\<in>set cs. isSetenv e \<longrightarrow> agentWrite e"
    by auto
  let ?rest = "fs @ [EvLog ''server ready!''] @ as @ cs @ [EvBodyClose]"
  have "\<forall>e\<in>set ?rest. isSetenv e \<longrightarrow> agentWrite e" using fs a(2) c(2) by auto
  moreover have "trace s' = trace s @
      [EvListen, EvListen, EvListen,
       EvKeygen (filepath_Join w (filepath_Join w (tb_TempDir w) ''.ssh'') ''charm_server''),
       EvNewServer cfg,
       EvSetenv ''CHARM_HOST'' (srv_Host cfg),
       EvSetenv ''CHARM_SSH_PORT'' (itoa (srv_SSHPort cfg)),
       EvSetenv ''CHARM_HTTP_PORT'' (itoa (srv_HTTPPort cfg)),
       EvSetenv ''CHARM_DATA_DIR'' (filepath_Join w (tb_TempDir w) ''.client-data''),
       EvServerStart] @ ?rest"
    using ready(5) c(1) a(1) f(1) serverConfig_Inr [OF sc] by (simp add: emit_def)
  ultimately show ?thesis by (intro exI [of _ ?rest]) blast
qed

theorem env_published_after_server_witness:
  "\<exists>r s' rest. SetupTestServerWithAgent example_world [] example_state = Some (r, s') \<and>
     trace s' =
       [EvListen, EvListen, EvListen, EvKeygen ''/tmp/t/.ssh/charm_server'',
        EvNewServer \<lparr>srv_Host = ''localhost'', srv_SSHPort = 7001, srv_HTTPPort = 7002,
           srv_HealthPort = 7003, srv_DataDir = ''/tmp/t/.data'',
           srv_PublicKey = ''pub'', srv_PrivateKey = ''pem''\<rparr>,
        EvSetenv ''CHARM_HOST'' ''localhost'',
        EvSetenv ''CHARM_SSH_PORT'' (itoa 7001),
        EvSetenv ''CHARM_HTTP_PORT'' (itoa 7002),
        EvSetenv ''CHARM_DATA_DIR'' ''/tmp/t/.client-data'',
        EvServerStart] @ rest \<and>
     (\<forall>e\<in>set rest. isSetenv e \<longrightarrow> agentWrite e)"
proof -
  from example_run_plain obtain r s' where
    run: "SetupTestServerWithAgent example_world [] example_state = Some (r, s')" by blast
  from example_server_config obtain s1 where
    sc: "serverConfig example_world (tb_TempDir example_world) example_state =
     (Inr \<lparr>srv_Host = ''localhost'', srv_SSHPort = 7001, srv_HTTPPort = 7002,
           srv_HealthPort = 7003, srv_DataDir = ''/tmp/t/.data'',
           srv_PublicKey = ''pub'', srv_PrivateKey = ''pem''\<rparr>, s1)" by blast
  from env_published_after_server [OF run sc] run show ?thesis
    by (simp add: example_world_def example_state_def)
qed

section \<open>Teardown\<close>

subsection \<open>Claim C2: the order of the teardown actions\<close>

text \<open>
  C2 places the closing of the agent before the unsetting of its variables. The agent's
  closure is registered first (line 82), the server's closure second (line 93), and the
  framework calls the last one first: in the example run with one signer the server's
  closure unsets the agent's variables, and only then the agent is closed.
\<close>

theorem teardown_order_counterexample:
  "teardownEvents example_world [Signer ''a''] example_state =
     Some [EvServerClose,
           EvUnsetenv ''CHARM_HOST'', EvUnsetenv ''CHARM_SSH_PORT'',
           EvUnsetenv ''CHARM_HTTP_PORT'', EvUnsetenv ''CHARM_DATA_DIR'',
           EvUnsetenv ''CHARM_USE_SSH_AGENT'', EvUnsetenv ''CHARM_SSH_AGENT_ADDR'',
           EvAgentClose] \<and>
   teardownEvents example_world [Signer ''a''] example_state \<noteq>
     Some [EvServerClose,
           EvUnsetenv ''CHARM_HOST'', EvUnsetenv ''CHARM_SSH_PORT'',
           EvUnsetenv ''CHARM_HTTP_PORT'', EvUnsetenv ''CHARM_DATA_DIR'',
           EvAgentClose,
           EvUnsetenv ''CHARM_USE_SSH_AGENT'', EvUnsetenv ''CHARM_SSH_AGENT_ADDR'']"
  by (simp add: eval_defs)

text \<open>
  C2 as amended: for a run that registered its teardown, the actions run in this order,
  before any closure registered earlier: (1) the server is closed, and a close error is
  reported with \<^verbatim>\<open>tb.Error\<close>, not thrown; (2) the four core variables are unset;
  (3) if an agent was started, its two variables are unset; (4) if an agent was started,
  it is closed. The agent is closed after its variables are unset.
\<close>

theorem teardown_order:
  assumes run: "SetupTestServerWithAgent w signers s = Some (r, s')"
    and reg: "cleanups s' \<noteq> cleanups s"
  shows "\<exists>s''. tb_Teardown w s' = runCleanups w (cleanups s) s'' \<and>
    trace s'' = trace s' @ [EvServerClose]
      @ (case server_Close w of
           Some err \<Rightarrow> [EvError (''failed to close server: '' @ err)]
         | None \<Rightarrow> [])
      @ [EvUnsetenv ''CHARM_HOST'', EvUnsetenv ''CHARM_SSH_PORT'',
         EvUnsetenv ''CHARM_HTTP_PORT'', EvUnsetenv ''CHARM_DATA_DIR'']
      @ (if signers \<noteq> []
         then [EvUnsetenv ''CHARM_USE_SSH_AGENT'', EvUnsetenv ''CHARM_SSH_AGENT_ADDR'',
               EvAgentClose]
         else [])"
proof (cases "signers = []")
  case True
  let ?s'' = "runCleanup w (ServerCleanup None) (s'\<lparr>cleanups := []\<rparr>)"
  have "tb_Teardown w s' = runCleanups w (cleanups s) ?s''"
    using Teardown_registered [OF run reg] True by simp
  moreover have "trace ?s'' = trace s' @ [EvServerClose]
      @ (case server_Close w of
           Some err \<Rightarrow> [EvError (''failed to close server: '' @ err)]
         | None \<Rightarrow> [])
      @ [EvUnsetenv ''CHARM_HOST'', EvUnsetenv ''CHARM_SSH_PORT'',
         EvUnsetenv ''CHARM_HTTP_PORT'', EvUnsetenv ''CHARM_DATA_DIR'']"
    by (simp only: runCleanup_server_trace) simp
  ultimately show ?thesis using True by (intro exI [of _ ?s'']) simp
next
  case False
  let ?s1 = "runCleanup w (ServerCleanup (Some (Agent signers))) (s'\<lparr>cleanups := []\<rparr>)"
  let ?s'' = "runCleanup w (AgentCleanup (Agent signers)) ?s1"
  have "tb_Teardown w s' = runCleanups w (cleanups s) ?s''"
    using Teardown_registered [OF run reg] False by simp
  moreover have "trace ?s'' = trace s' @ [EvServerClose]
      @ (case server_Close w of
           Some err \<Rightarrow> [EvError (''failed to close server: '' @ err)]
         | None \<Rightarrow> [])
      @ [EvUnsetenv ''CHARM_HOST'', EvUnsetenv ''CHARM_SSH_PORT'',
         EvUnsetenv ''CHARM_HTTP_PORT'', EvUnsetenv ''CHARM_DATA_DIR'']
      @ [EvUnsetenv ''CHARM_USE_SSH_AGENT'', EvUnsetenv ''CHARM_SSH_AGENT_ADDR'',
         EvAgentClose]"
    by (simp only: runCleanup_server_trace runCleanup_agent_trace) simp
  ultimately show ?thesis using False by (intro exI [of _ ?s'']) simp
qed

theorem teardown_order_witness:
  "\<exists>r s'. SetupTestServerWithAgent example_world [Signer ''a''] example_state = Some (r, s') \<and>
     cleanups s' \<noteq> cleanups example_state \<and>
     trace (tb_Teardown example_world s') = trace s' @
       [EvServerClose,
        EvUnsetenv ''CHARM_HOST'', EvUnsetenv ''CHARM_SSH_PORT'',
        EvUnsetenv ''CHARM_HTTP_PORT'', EvUnsetenv ''CHARM_DATA_DIR'',
        EvUnsetenv ''CHARM_USE_SSH_AGENT'', EvUnsetenv ''CHARM_SSH_AGENT_ADDR'',
        EvAgentClose]"
proof -
  from example_run_agent obtain r s' where
    run: "SetupTestServerWithAgent example_world [Signer ''a''] example_state = Some (r, s')"
    and reg: "cleanups s' \<noteq> cleanups example_state" by blast
  from teardown_order [OF run reg] obtain s'' where
    "tb_Teardown example_world s' = runCleanups example_world (cleanups example_state) s''"
    "trace s'' = trace s' @ [EvServerClose]
      @ (case server_Close example_world of
           Some err \<Rightarrow> [EvError (''failed to close server: '' @ err)]
         | None \<Rightarrow> [])
      @ [EvUnsetenv ''CHARM_HOST'', EvUnsetenv ''CHARM_SSH_PORT'',
         EvUnsetenv ''CHARM_HTTP_PORT'', EvUnsetenv ''CHARM_DATA_DIR'']
      @ (if [Signer ''a''] \<noteq> []
         then [EvUnsetenv ''CHARM_USE_SSH_AGENT'', EvUnsetenv ''CHARM_SSH_AGENT_ADDR'',
               EvAgentClose]
         else [])" by blast
  then have "trace (tb_Teardown example_world s') = trace s' @
       [EvServerClose,
        EvUnsetenv ''CHARM_HOST'', EvUnsetenv ''CHARM_SSH_PORT'',
        EvUnsetenv ''CHARM_HTTP_PORT'', EvUnsetenv ''CHARM_DATA_DIR'',
        EvUnsetenv ''CHARM_USE_SSH_AGENT'', EvUnsetenv ''CHARM_SSH_AGENT_ADDR'',
        EvAgentClose]"
    by (simp add: example_world_def example_state_def)
  with run reg show ?thesis by blast
qed

subsection \<open>Claim C4: which variables teardown unsets\<close>




section \<open>Clients and agent\<close>

subsection \<open>Claim C7: no signer, no agent\<close>

text \<open>
  C7: with an empty signer list the call returns, the \<^verbatim>\<open>Clients\<close> value it returns
  (when it is not aborted) has \<^verbatim>\<open>Full\<close> nil, and no event of the call writes
  \<^verbatim>\<open>CHARM_USE_SSH_AGENT\<close> or \<^verbatim>\<open>CHARM_SSH_AGENT_ADDR\<close>: both hold afterwards
  what they held before.
\<close>

theorem no_signers_no_agent:
  "\<exists>r s' evs. SetupTestServerWithAgent w [] s = Some (r, s') \<and>
     (\<forall>clients. r = Inr clients \<longrightarrow> Full clients = None) \<and>
     trace s' = trace s @ evs \<and> (\<forall>e\<in>set evs. \<not> agentWrite e) \<and>
     env s' ''CHARM_USE_SSH_AGENT'' = env s ''CHARM_USE_SSH_AGENT'' \<and>
     env s' ''CHARM_SSH_AGENT_ADDR'' = env s ''CHARM_SSH_AGENT_ADDR''"
proof -
  from Setup_no_signers_returns obtain r s' where
    run: "SetupTestServerWithAgent w [] s = Some (r, s')" by blast
  from Setup_no_signers [OF run] run show ?thesis by blast
qed

theorem no_signers_no_agent_witness:
  "\<exists>clients s'. SetupTestServerWithAgent example_world [] example_state = Some (Inr clients, s') \<and>
     Full clients = None \<and> NoAgent clients \<noteq> None \<and>
     env s' ''CHARM_USE_SSH_AGENT'' = None \<and> env s' ''CHARM_HOST'' = Some ''localhost'' \<and>
     (\<forall>e\<in>set (trace s'). \<not> agentWrite e)"
proof -
  from no_signers_no_agent [of example_world example_state] obtain r s' evs where
    run: "SetupTestServerWithAgent example_world [] example_state = Some (r, s')"
    and full: "\<forall>clients. r = Inr clients \<longrightarrow> Full clients = None"
    and tr: "trace s' = trace example_state @ evs" "\<forall>e\<in>set evs. \<not> agentWrite e"
    and ev: "env s' ''CHARM_USE_SSH_AGENT'' = env example_state ''CHARM_USE_SSH_AGENT''"
    by blast
  have "\<exists>clients. r = Inr clients \<and> NoAgent clients \<noteq> None \<and>
      env s' ''CHARM_HOST'' = Some ''localhost''"
    using run by (simp add: eval_defs) auto
  with run full tr ev show ?thesis
    by (auto simp: example_state_def)
qed

subsection \<open>Claim C8: the client with the agent\<close>



subsection \<open>Claim C9: the two configurations agree\<close>



end
